theory Spec2Isabelle
  imports Main "HOL-Library.AList"
begin

section \<open>Run-time values\<close>

text \<open>
  The library is TypeScript: its type annotations are erased when it runs. Three kinds
  of values are kept apart.
  \<^item> \<open>json\<close>: what the transport delivers and what the fields of a resource hold.
  \<^item> \<open>svalue\<close>: the declared type \<^verbatim>\<open>number | string | Array<number | string>\<close> of
    an identifier or of a filter value.
  \<^item> \<open>jsval\<close>: what a parameter slot holds at run time, where the repository's own calls
    decide it: nothing (\<^verbatim>\<open>undefined\<close>), an \<open>svalue\<close>, or one of the three bound methods
    of the service (\<^verbatim>\<open>this.list.bind(this)\<close>, \<^verbatim>\<open>this.get.bind(this)\<close>,
    \<^verbatim>\<open>this.search.bind(this)\<close>).
  Numbers are modelled as integers; their decimal text is the one JavaScript prints for
  every integer of magnitude below \<open>10^21\<close>. A string is a list of characters, each one a
  code unit below 256.
\<close>

datatype json =
    JNull
  | JBool bool
  | JNum int
  | JStr string
  | JArr "json list"
  | JObj "(string \<times> json) list"

datatype svalue = SNum int | SStr string | SArr "svalue list"

datatype fn = ListFn | GetFn | SearchFn

datatype jsval = Undefined | Val svalue | Fun fn

datatype exn = TypeError

subsection \<open>Text of numbers, \<^verbatim>\<open>Array.prototype.join\<close>, \<^verbatim>\<open>toString\<close>\<close>

fun digits :: "nat \<Rightarrow> string" where
  "digits n =
     (if n < 10 then [''0123456789'' ! n]
      else digits (n div 10) @ [''0123456789'' ! (n mod 10)])"

declare digits.simps [simp del]

definition show_int :: "int \<Rightarrow> string" where
  "show_int i = (if i < 0 then CHR ''-'' # digits (nat (- i)) else digits (nat i))"

fun join :: "string \<Rightarrow> string list \<Rightarrow> string" where
  "join sep [] = []"
| "join sep [x] = x"
| "join sep (x # y # ys) = x @ sep @ join sep (y # ys)"

text \<open>\<^verbatim>\<open>value.toString()\<close> on a number, a string or an array of those.\<close>

fun toString :: "svalue \<Rightarrow> string" where
  "toString (SNum n) = show_int n"
| "toString (SStr s) = s"
| "toString (SArr xs) = join '','' (map toString xs)"

text \<open>
  The truth value JavaScript gives a slot in \<^verbatim>\<open>if (x)\<close>: \<^verbatim>\<open>undefined\<close>,
  \<^verbatim>\<open>0\<close> and the empty string are false; arrays and functions are true.
\<close>

fun truthy :: "jsval \<Rightarrow> bool" where
  "truthy Undefined = False"
| "truthy (Val (SNum n)) = (n \<noteq> 0)"
| "truthy (Val (SStr s)) = (s \<noteq> [])"
| "truthy (Val (SArr xs)) = True"
| "truthy (Fun f) = True"

text \<open>String concatenation \<^verbatim>\<open>'/' + x\<close> of a slot.\<close>

fun concat_text :: "jsval \<Rightarrow> string" where
  "concat_text Undefined = ''undefined''"
| "concat_text (Val v) = toString v"
| "concat_text (Fun f) = ''function () { [native code] }''"

subsection \<open>\<^verbatim>\<open>JSON.stringify\<close>\<close>

definition hex_digit :: "nat \<Rightarrow> char" where
  "hex_digit n = ''0123456789abcdef'' ! n"

text \<open>
  One character inside a JSON string literal: the quote and the backslash are escaped,
  the five short escapes are used, every other control character is written
  \<^verbatim>\<open>\u00XX\<close>.
\<close>

definition json_escape :: "char \<Rightarrow> string" where
  "json_escape c =
     (if c = CHR 0x22 then [CHR 0x5C, CHR 0x22]
      else if c = CHR 0x5C then [CHR 0x5C, CHR 0x5C]
      else if c = CHR 0x08 then [CHR 0x5C, CHR ''b'']
      else if c = CHR 0x09 then [CHR 0x5C, CHR ''t'']
      else if c = CHR 0x0A then [CHR 0x5C, CHR ''n'']
      else if c = CHR 0x0C then [CHR 0x5C, CHR ''f'']
      else if c = CHR 0x0D then [CHR 0x5C, CHR ''r'']
      else if (of_char c :: nat) < 32
        then [CHR 0x5C, CHR ''u'', CHR ''0'', CHR ''0'',
              hex_digit ((of_char c :: nat) div 16), hex_digit ((of_char c :: nat) mod 16)]
      else [c])"

definition json_quote :: "string \<Rightarrow> string" where
  "json_quote s = [CHR 0x22] @ concat (map json_escape s) @ [CHR 0x22]"

fun JSON_stringify :: "json \<Rightarrow> string" where
  "JSON_stringify JNull = ''null''"
| "JSON_stringify (JBool b) = (if b then ''true'' else ''false'')"
| "JSON_stringify (JNum n) = show_int n"
| "JSON_stringify (JStr s) = json_quote s"
| "JSON_stringify (JArr xs) = ''['' @ join '','' (map JSON_stringify xs) @ '']''"
| "JSON_stringify (JObj fs) =
     ''{'' @ join '','' (map (\<lambda>(k, v). json_quote k @ '':'' @ JSON_stringify v) fs) @ ''}''"

section \<open>Angular's \<^verbatim>\<open>HttpParams\<close> and \<^verbatim>\<open>HttpHeaders\<close>\<close>

text \<open>
  Both classes belong to the framework, not to the repository. They are immutable keyed
  stores: \<^verbatim>\<open>set(k, v)\<close> returns a copy in which \<open>k\<close> holds \<open>v\<close> alone, replacing a
  value \<open>k\<close> already had (at the place \<open>k\<close> first took) and appending \<open>k\<close> otherwise.
  That is \<^const>\<open>AList.update\<close> on an association list. The key of a parameter is whatever
  the caller passed, so it is a \<open>jsval\<close>.

  \<^verbatim>\<open>HttpHeaders\<close> keys a header by its name in lower case and remembers, per key, the
  name as it was first written: a header is stored as the key, that name and the value.
  \<^verbatim>\<open>String.prototype.toLowerCase\<close> on code units below 256 maps the capital letters of
  ASCII and of Latin-1 to their small forms and leaves every other character alone.
\<close>

type_synonym HttpParams = "(jsval \<times> string) list"
type_synonym HttpHeaders = "(string \<times> string \<times> string) list"

abbreviation str :: "string \<Rightarrow> jsval" where
  "str s \<equiv> Val (SStr s)"

definition params_set :: "jsval \<Rightarrow> string \<Rightarrow> HttpParams \<Rightarrow> HttpParams" where
  "params_set k v params = AList.update k v params"

definition upper_letters :: string where
  "upper_letters = ''ABCDEFGHIJKLMNOPQRSTUVWXYZ'' @
     [CHR 0xC0, CHR 0xC1, CHR 0xC2, CHR 0xC3, CHR 0xC4, CHR 0xC5, CHR 0xC6, CHR 0xC7,
      CHR 0xC8, CHR 0xC9, CHR 0xCA, CHR 0xCB, CHR 0xCC, CHR 0xCD, CHR 0xCE, CHR 0xCF,
      CHR 0xD0, CHR 0xD1, CHR 0xD2, CHR 0xD3, CHR 0xD4, CHR 0xD5, CHR 0xD6,
      CHR 0xD8, CHR 0xD9, CHR 0xDA, CHR 0xDB, CHR 0xDC, CHR 0xDD, CHR 0xDE]"

definition lower_letters :: string where
  "lower_letters = ''abcdefghijklmnopqrstuvwxyz'' @
     [CHR 0xE0, CHR 0xE1, CHR 0xE2, CHR 0xE3, CHR 0xE4, CHR 0xE5, CHR 0xE6, CHR 0xE7,
      CHR 0xE8, CHR 0xE9, CHR 0xEA, CHR 0xEB, CHR 0xEC, CHR 0xED, CHR 0xEE, CHR 0xEF,
      CHR 0xF0, CHR 0xF1, CHR 0xF2, CHR 0xF3, CHR 0xF4, CHR 0xF5, CHR 0xF6,
      CHR 0xF8, CHR 0xF9, CHR 0xFA, CHR 0xFB, CHR 0xFC, CHR 0xFD, CHR 0xFE]"

definition lower_char :: "char \<Rightarrow> char" where
  "lower_char c =
     (case map_of (zip upper_letters lower_letters) c of None \<Rightarrow> c | Some l \<Rightarrow> l)"

definition toLowerCase :: "string \<Rightarrow> string" where
  "toLowerCase s = map lower_char s"

text \<open>
  \<^verbatim>\<open>headers.set(name, value)\<close>: the key is the lower-cased name; the name kept for a key
  that is already there is the one first written; the value replaces the old one.
\<close>

definition headers_set :: "string \<Rightarrow> string \<Rightarrow> HttpHeaders \<Rightarrow> HttpHeaders" where
  "headers_set name v hs =
     (let key = toLowerCase name;
          normalizedName = (case map_of hs key of None \<Rightarrow> name | Some (n, old) \<Rightarrow> n)
      in AList.update key (normalizedName, v) hs)"

section \<open>The query builders (\<^verbatim>\<open>resource-builders.ts\<close>)\<close>

datatype order_type = Asc | Desc

fun order_text :: "order_type \<Rightarrow> string" where
  "order_text Asc = ''asc''"
| "order_text Desc = ''desc''"

record OrderBy =
  ob_field :: string
  ob_type :: order_type

record SearchParam =
  sp_field :: jsval
  sp_value :: string

text \<open>A header value is declared \<^verbatim>\<open>string | string[]\<close>.\<close>

datatype hvalue = HStr string | HArr "string list"

fun hvalue_toString :: "hvalue \<Rightarrow> string" where
  "hvalue_toString (HStr s) = s"
| "hvalue_toString (HArr xs) = join '','' xs"

text \<open>
  The handler of a builder is called with positional arguments; a call is recorded as the
  function called and the arguments passed, in order. A resource is an object reference:
  an address of the store defined further down.
\<close>

type_synonym addr = nat

datatype search_method = Get | Patch | Delete

datatype arg =
    AVal jsval
  | AParams HttpParams
  | AHeaders "HttpHeaders option"
  | AMethod search_method
  | AResource "addr option"

datatype call = Call fn "arg list"

text \<open>Calling a slot that holds no function throws \<^verbatim>\<open>TypeError\<close>.\<close>

definition invoke :: "jsval \<Rightarrow> arg list \<Rightarrow> exn + call" where
  "invoke h args = (case h of Fun f \<Rightarrow> Inr (Call f args) | _ \<Rightarrow> Inl TypeError)"

subsection \<open>\<^verbatim>\<open>GetQuery\<close>\<close>

text \<open>
  \<open>limitResult\<close> and \<open>pageNumber\<close> are declared without an initial value: they are
  \<^verbatim>\<open>undefined\<close> (\<open>None\<close>) until \<open>limit\<close> or \<open>page\<close> is called. \<open>headers\<close> is a plain
  object; its keys are kept in the order they were first set. (JavaScript lists keys
  that are array indices first; such a key is equal in lower case to no other key, so
  the header map \<open>getHttpHeaders\<close> builds does not depend on where it stands.)
\<close>

record GetQuery =
  id' :: jsval
  getHandler :: jsval
  onlyFields :: "string list"
  limitResult :: "int option"
  pageNumber :: "int option"
  orderByFields :: "OrderBy list"
  headers :: "(string \<times> hvalue) list"

definition GetQuery_new :: "jsval \<Rightarrow> jsval \<Rightarrow> GetQuery" where
  "GetQuery_new handler i =
     \<lparr> id' = i, getHandler = handler, onlyFields = [], limitResult = None,
       pageNumber = None, orderByFields = [], headers = [] \<rparr>"


definition limit :: "int \<Rightarrow> 'a GetQuery_scheme \<Rightarrow> 'a GetQuery_scheme" where
  "limit n q = q\<lparr> limitResult := Some n \<rparr>"

definition page :: "int \<Rightarrow> 'a GetQuery_scheme \<Rightarrow> 'a GetQuery_scheme" where
  "page n q = q\<lparr> pageNumber := Some n \<rparr>"

text \<open>The second argument of \<open>orderBy\<close> may be left out (\<open>None\<close>); it is then \<^verbatim>\<open>'asc'\<close>.\<close>

definition orderBy ::
  "string \<Rightarrow> order_type option \<Rightarrow> 'a GetQuery_scheme \<Rightarrow> 'a GetQuery_scheme" where
  "orderBy field t q =
     q\<lparr> orderByFields := orderByFields q @
           [\<lparr> ob_field = field, ob_type = (case t of None \<Rightarrow> Asc | Some d \<Rightarrow> d) \<rparr>] \<rparr>"



definition orderByArray :: "OrderBy list \<Rightarrow> json" where
  "orderByArray obs = JArr (map (\<lambda>ob. JArr [JStr (ob_field ob), JStr (order_text (ob_type ob))]) obs)"

definition getHttpParams :: "'a GetQuery_scheme \<Rightarrow> HttpParams" where
  "getHttpParams q =
     (let params = [];
          params = (if onlyFields q \<noteq> []
                    then params_set (str ''only'') (join '','' (onlyFields q)) params
                    else params);
          params = (case limitResult q of
                      None \<Rightarrow> params
                    | Some n \<Rightarrow> if n \<noteq> 0 then params_set (str ''limit'') (show_int n) params
                               else params);
          params = (case pageNumber q of
                      None \<Rightarrow> params
                    | Some n \<Rightarrow> if n \<noteq> 0 then params_set (str ''page'') (show_int n) params
                               else params);
          params = (if orderByFields q \<noteq> []
                    then params_set (str ''order'')
                           (JSON_stringify (orderByArray (orderByFields q))) params
                    else params)
      in params)"

text \<open>
  \<^verbatim>\<open>Object.keys(headers)\<close> are the keys of the object, \<^verbatim>\<open>headers[key]\<close> the value
  stored under one of them. The result \<open>None\<close> is \<^verbatim>\<open>null\<close>.
\<close>

definition getHttpHeaders :: "'a GetQuery_scheme \<Rightarrow> HttpHeaders option" where
  "getHttpHeaders q =
     (let hs = headers q; keys = map fst hs
      in if keys \<noteq> []
         then Some (foldl (\<lambda>httpHeaders key.
                      case map_of hs key of
                        Some v \<Rightarrow> headers_set key (hvalue_toString v) httpHeaders
                      | None \<Rightarrow> httpHeaders) [] keys)
         else None)"

definition GetQuery_get :: "'a GetQuery_scheme \<Rightarrow> exn + call" where
  "GetQuery_get q =
     (let params = getHttpParams q; hs = getHttpHeaders q
      in if truthy (id' q)
         then invoke (getHandler q) [AVal (id' q), AParams params, AHeaders hs]
         else invoke (getHandler q) [AParams params, AHeaders hs])"

subsection \<open>\<^verbatim>\<open>SearchQuery\<close>\<close>

record SearchQuery = GetQuery +
  searchParams :: "SearchParam list"
  searchHandler :: jsval

text \<open>
  The constructor's parameters are, in this order, \<open>field\<close>, \<open>value\<close> and
  \<open>searchHandler\<close>. It calls \<^verbatim>\<open>super(searchHandler)\<close>, which leaves the identifier
  \<^verbatim>\<open>undefined\<close>, then stores the first filter pair and the handler.
\<close>

definition SearchQuery_new :: "jsval \<Rightarrow> svalue \<Rightarrow> jsval \<Rightarrow> SearchQuery" where
  "SearchQuery_new field v handler =
     \<lparr> id' = Undefined, getHandler = handler, onlyFields = [], limitResult = None,
       pageNumber = None, orderByFields = [], headers = [],
       searchParams = [\<lparr> sp_field = field, sp_value = toString v \<rparr>],
       searchHandler = handler \<rparr>"

definition andWhere :: "string \<Rightarrow> svalue \<Rightarrow> SearchQuery \<Rightarrow> SearchQuery" where
  "andWhere field v q =
     q\<lparr> searchParams := searchParams q @ [\<lparr> sp_field = str field, sp_value = toString v \<rparr>] \<rparr>"

definition SearchQuery_get :: "SearchQuery \<Rightarrow> exn + call" where
  "SearchQuery_get q =
     (let params = foldl (\<lambda>params searchParam.
                      params_set (sp_field searchParam) (sp_value searchParam) params)
                    (getHttpParams q) (searchParams q)
      in invoke (searchHandler q)
           [AParams params, AMethod Get, AResource None, AHeaders (getHttpHeaders q)])"

definition SearchQuery_remove :: "SearchQuery \<Rightarrow> exn + call" where
  "SearchQuery_remove q =
     (let params = foldl (\<lambda>params searchParam.
                      params_set (sp_field searchParam) (sp_value searchParam) params)
                    (getHttpParams q) (searchParams q)
      in invoke (searchHandler q)
           [AParams params, AMethod Delete, AResource None, AHeaders (getHttpHeaders q)])"

definition SearchQuery_patch :: "addr \<Rightarrow> SearchQuery \<Rightarrow> exn + call" where
  "SearchQuery_patch resource q =
     (let params = foldl (\<lambda>params searchParam.
                      params_set (sp_field searchParam) (sp_value searchParam) params)
                    (getHttpParams q) (searchParams q)
      in invoke (searchHandler q)
           [AParams params, AMethod Patch, AResource (Some resource), AHeaders (getHttpHeaders q)])"

section \<open>Objects, the transport and the service (\<^verbatim>\<open>resource.service.ts\<close>)\<close>

subsection \<open>JSON values as JavaScript reads them\<close>

fun truthy_json :: "json \<Rightarrow> bool" where
  "truthy_json JNull = False"
| "truthy_json (JBool b) = b"
| "truthy_json (JNum n) = (n \<noteq> 0)"
| "truthy_json (JStr s) = (s \<noteq> [])"
| "truthy_json (JArr xs) = True"
| "truthy_json (JObj fs) = True"

text \<open>
  The text of a JSON value in a string concatenation. Inside an array \<^verbatim>\<open>null\<close> is
  printed as nothing.
\<close>

fun text_json :: "json \<Rightarrow> string" where
  "text_json JNull = ''null''"
| "text_json (JBool b) = (if b then ''true'' else ''false'')"
| "text_json (JNum n) = show_int n"
| "text_json (JStr s) = s"
| "text_json (JArr xs) = join '','' (map (\<lambda>x. if x = JNull then [] else text_json x) xs)"
| "text_json (JObj fs) = ''[object Object]''"

text \<open>
  The own enumerable properties \<^verbatim>\<open>Object.assign\<close> reads from its source: the fields of
  an object, the indexed elements of an array or of a string, nothing for \<^verbatim>\<open>null\<close>, a
  boolean or a number. A parsed JSON object holds each key once, at the place the key
  first took, with the last value written for it.
\<close>

fun own_entries :: "json \<Rightarrow> (string \<times> json) list" where
  "own_entries (JObj fs) = foldl (\<lambda>al (k, v). AList.update k v al) [] fs"
| "own_entries (JArr xs) = zip (map digits [0..<length xs]) xs"
| "own_entries (JStr s) = zip (map digits [0..<length s]) (map (\<lambda>c. JStr [c]) s)"
| "own_entries _ = []"

type_synonym props = "string \<rightharpoonup> json"

text \<open>
  An object is its prototype and its own fields. The prototype is that of the class that
  constructed the object, until a write to \<^verbatim>\<open>__proto__\<close> replaces it by a JSON value
  (an object, an array or \<^verbatim>\<open>null\<close>). A class is taken to declare data fields and the
  optional hook only: its prototype holds no accessor and no data property.
\<close>

datatype proto = ClassProto string | ValueProto json

record obj =
  proto :: proto
  props :: props

text \<open>
  Reading a data property: the object's own field, else the field of a prototype that
  is a JSON object.
\<close>

definition get_property :: "obj \<Rightarrow> string \<Rightarrow> json option" where
  "get_property ob k =
     (case props ob k of
        Some v \<Rightarrow> Some v
      | None \<Rightarrow> (case proto ob of ValueProto (JObj fs) \<Rightarrow> map_of (rev fs) k | _ \<Rightarrow> None))"

text \<open>
  An object inherits the accessor \<^verbatim>\<open>__proto__\<close> of \<^verbatim>\<open>Object.prototype\<close> unless it
  has an own field of that name, its prototype is \<^verbatim>\<open>null\<close>, or its prototype is a JSON
  object with such a field.
\<close>

definition inherits_proto_setter :: "obj \<Rightarrow> bool" where
  "inherits_proto_setter ob =
     (props ob ''__proto__'' = None \<and>
      (case proto ob of
         ClassProto c \<Rightarrow> True
       | ValueProto JNull \<Rightarrow> False
       | ValueProto (JObj fs) \<Rightarrow> ''__proto__'' \<notin> set (map fst fs)
       | ValueProto _ \<Rightarrow> True))"

text \<open>
  \<^verbatim>\<open>target[k] = v\<close>. Through the inherited accessor, writing \<^verbatim>\<open>__proto__\<close> replaces
  the prototype when the value is an object, an array or \<^verbatim>\<open>null\<close>, and does nothing
  for any other value; in neither case does the target gain a field. Every other write
  sets the target's own field.
\<close>

definition set_property :: "obj \<Rightarrow> string \<times> json \<Rightarrow> obj" where
  "set_property ob kv =
     (case kv of (k, v) \<Rightarrow>
        if k = ''__proto__'' \<and> inherits_proto_setter ob
        then (case v of
                JNull \<Rightarrow> ob\<lparr> proto := ValueProto v \<rparr>
              | JObj fs \<Rightarrow> ob\<lparr> proto := ValueProto v \<rparr>
              | JArr xs \<Rightarrow> ob\<lparr> proto := ValueProto v \<rparr>
              | _ \<Rightarrow> ob)
        else ob\<lparr> props := (props ob)(k \<mapsto> v) \<rparr>)"

text \<open>\<^verbatim>\<open>Object.assign(target, source)\<close>: each entry of the source is written to the target, in order.\<close>

definition Object_assign :: "obj \<Rightarrow> json \<Rightarrow> obj" where
  "Object_assign target source = foldl set_property target (own_entries source)"

text \<open>What \<^verbatim>\<open>for (const row of x)\<close> iterates; a value that is not iterable throws.\<close>

fun iterate :: "json \<Rightarrow> exn + json list" where
  "iterate (JArr rows) = Inr rows"
| "iterate (JStr s) = Inr (map (\<lambda>c. JStr [c]) s)"
| "iterate _ = Inl TypeError"

subsection \<open>The store\<close>

text \<open>
  A model class is the constructor passed to the service: a name, the static
  \<open>basePath\<close>, the fields a new instance starts with, and the optional method
  \<open>onInstantiated\<close>, which changes the fields of the instance it is called on.
\<close>

record ModelClass =
  className :: string
  basePath :: string
  initial :: props
  onInstantiated :: "(props \<Rightarrow> props) option"

datatype verb = GET | POST | PUT | PATCH | DELETE

type_synonym FormData = "(string \<times> string) list"

datatype payload = Resource addr | Form FormData

text \<open>
  A request: method, URL, body, and the two options \<^verbatim>\<open>{ params, headers }\<close>. An option
  that is \<^verbatim>\<open>undefined\<close> or \<^verbatim>\<open>null\<close> is \<open>None\<close>.
\<close>

datatype request = Request verb string "payload option" "HttpParams option" "HttpHeaders option"

datatype event = Sent request | Created addr | Hooked addr

text \<open>
  Every address holds an object; the addresses from \<open>next_addr\<close> on have not been handed
  out. The log records, in order, what was sent to the transport, which objects were
  constructed and on which the hook ran.
\<close>

record world =
  heap :: "addr \<Rightarrow> obj"
  next_addr :: addr
  log :: "event list"

definition emit :: "event \<Rightarrow> world \<Rightarrow> world" where
  "emit e w = w\<lparr> log := log w @ [e] \<rparr>"

text \<open>
  The value a promise resolves with: nothing (\<^verbatim>\<open>res()\<close>), the transport's value as it
  came, a reference, or a result object whose \<open>data\<close> now holds an array of references.
  \<open>Threw\<close> is an exception that escaped the \<^verbatim>\<open>subscribe\<close> callback: the promise is
  then neither resolved nor rejected.
\<close>

datatype resolved =
    RUndefined
  | RJson json
  | RRef addr
  | RList "(string \<times> json) list" "addr list"

datatype 'e outcome = Resolved resolved | Rejected 'e | Threw exn

text \<open>
  The transport (Angular's \<^verbatim>\<open>HttpClient\<close>) answers a request once, with an error or
  with the parsed body; an empty body is \<^verbatim>\<open>null\<close>.
\<close>

record 'e ResourceService =
  apiUrl :: string
  http :: "request \<Rightarrow> 'e + json"
  modelClass :: ModelClass

definition ResourceService_new ::
  "string \<Rightarrow> (request \<Rightarrow> 'e + json) \<Rightarrow> ModelClass \<Rightarrow> 'e ResourceService" where
  "ResourceService_new baseUrl client mc =
     \<lparr> apiUrl = baseUrl @ basePath mc, http = client, modelClass = mc \<rparr>"

subsection \<open>Materialization\<close>

text \<open>
  The four statements that \<open>get\<close> and \<open>generateListResponse\<close> both run for one raw record:
  \<^verbatim>\<open>const item = new this.modelClass(); Object.assign(item, row);
  if (item.onInstantiated) { item.onInstantiated(); }\<close>
  The property \<open>item.onInstantiated\<close> is a data property when the instance or a JSON
  prototype has a field of that name, and otherwise the method of the class, if the
  instance still has the prototype of the class. A JSON value is never a function:
  calling it throws.
\<close>

datatype member = Missing | Data json | Method "props \<Rightarrow> props"

definition get_onInstantiated :: "ModelClass \<Rightarrow> obj \<Rightarrow> member" where
  "get_onInstantiated mc ob =
     (case get_property ob ''onInstantiated'' of
        Some v \<Rightarrow> Data v
      | None \<Rightarrow>
          (case proto ob of
             ClassProto c \<Rightarrow> (case onInstantiated mc of None \<Rightarrow> Missing | Some hook \<Rightarrow> Method hook)
           | ValueProto v \<Rightarrow> Missing))"

definition instantiate :: "ModelClass \<Rightarrow> json \<Rightarrow> world \<Rightarrow> (exn + addr) \<times> world" where
  "instantiate mc row w =
     (let item = next_addr w;
          ob = Object_assign \<lparr> proto = ClassProto (className mc), props = initial mc \<rparr> row;
          w1 = emit (Created item) (w\<lparr> heap := (heap w)(item := ob), next_addr := Suc item \<rparr>)
      in case get_onInstantiated mc ob of
           Missing \<Rightarrow> (Inr item, w1)
         | Data v \<Rightarrow> if truthy_json v then (Inl TypeError, w1) else (Inr item, w1)
         | Method hook \<Rightarrow>
             (Inr item,
              emit (Hooked item)
                (w1\<lparr> heap := (heap w1)(item := ob\<lparr> props := hook (props ob) \<rparr>) \<rparr>)))"

text \<open>The loop of \<open>generateListResponse\<close>: one instance per row, pushed in order.\<close>

fun materialize :: "ModelClass \<Rightarrow> json list \<Rightarrow> world \<Rightarrow> (exn + addr list) \<times> world" where
  "materialize mc [] w = (Inr [], w)"
| "materialize mc (row # rows) w =
     (case instantiate mc row w of
        (Inl e, w1) \<Rightarrow> (Inl e, w1)
      | (Inr item, w1) \<Rightarrow>
          (case materialize mc rows w1 of
             (Inl e, w2) \<Rightarrow> (Inl e, w2)
           | (Inr items, w2) \<Rightarrow> (Inr (item # items), w2)))"

text \<open>
  \<^verbatim>\<open>result.data\<close> throws on \<^verbatim>\<open>null\<close>, is \<^verbatim>\<open>undefined\<close> on a value that is no
  object, and is the last field named \<open>data\<close> of an object.
\<close>

definition generateListResponse ::
  "'e ResourceService \<Rightarrow> json \<Rightarrow> world \<Rightarrow> (exn + resolved) \<times> world" where
  "generateListResponse svc result w =
     (case result of
        JNull \<Rightarrow> (Inl TypeError, w)
      | JObj fs \<Rightarrow>
          (case map_of (rev fs) ''data'' of
             None \<Rightarrow> (Inr (RJson result), w)
           | Some d \<Rightarrow>
               if truthy_json d
               then (case iterate d of
                       Inl e \<Rightarrow> (Inl e, w)
                     | Inr rows \<Rightarrow>
                         (case materialize (modelClass svc) rows w of
                            (Inl e, w1) \<Rightarrow> (Inl e, w1)
                          | (Inr items, w1) \<Rightarrow> (Inr (RList fs items), w1)))
               else (Inr (RJson result), w))
      | _ \<Rightarrow> (Inr (RJson result), w))"

subsection \<open>The operations\<close>

text \<open>
  Each operation builds one request, hands it to the transport, and runs one of its two
  callbacks on the answer. \<open>params\<close> and \<open>headers\<close> are optional.
\<close>

definition list ::
  "'e ResourceService \<Rightarrow> HttpParams option \<Rightarrow> HttpHeaders option \<Rightarrow> world
     \<Rightarrow> 'e outcome \<times> world" where
  "list svc params hs w =
     (let req = Request GET (apiUrl svc) None params hs; w1 = emit (Sent req) w
      in case http svc req of
           Inl err \<Rightarrow> (Rejected err, w1)
         | Inr result \<Rightarrow>
             (case generateListResponse svc result w1 of
                (Inl e, w2) \<Rightarrow> (Threw e, w2)
              | (Inr r, w2) \<Rightarrow> (Resolved r, w2)))"

definition get ::
  "'e ResourceService \<Rightarrow> jsval \<Rightarrow> HttpParams option \<Rightarrow> HttpHeaders option \<Rightarrow> world
     \<Rightarrow> 'e outcome \<times> world" where
  "get svc i params hs w =
     (let req = Request GET (apiUrl svc @ ''/'' @ concat_text i) None params hs;
          w1 = emit (Sent req) w
      in case http svc req of
           Inl err \<Rightarrow> (Rejected err, w1)
         | Inr data \<Rightarrow>
             (case instantiate (modelClass svc) data w1 of
                (Inl e, w2) \<Rightarrow> (Threw e, w2)
              | (Inr item, w2) \<Rightarrow> (Resolved (RRef item), w2)))"

text \<open>\<^verbatim>\<open>'/' + resource.id\<close>: the text of the property \<open>id\<close> of the object behind the reference.\<close>

definition id_text :: "world \<Rightarrow> addr \<Rightarrow> string" where
  "id_text w resource =
     (case get_property (heap w resource) ''id'' of
        None \<Rightarrow> ''undefined''
      | Some j \<Rightarrow> text_json j)"

text \<open>\<^verbatim>\<open>Object.assign(resource, data)\<close> on the object behind the reference.\<close>

definition merge :: "addr \<Rightarrow> json \<Rightarrow> world \<Rightarrow> world" where
  "merge resource data w =
     w\<lparr> heap := (heap w)(resource := Object_assign (heap w resource) data) \<rparr>"

definition create ::
  "'e ResourceService \<Rightarrow> addr \<Rightarrow> HttpParams option \<Rightarrow> HttpHeaders option \<Rightarrow> world
     \<Rightarrow> 'e outcome \<times> world" where
  "create svc resource params hs w =
     (let req = Request POST (apiUrl svc) (Some (Resource resource)) params hs;
          w1 = emit (Sent req) w
      in case http svc req of
           Inl err \<Rightarrow> (Rejected err, w1)
         | Inr data \<Rightarrow> (Resolved (RRef resource), merge resource data w1))"

definition update ::
  "'e ResourceService \<Rightarrow> addr \<Rightarrow> HttpParams option \<Rightarrow> HttpHeaders option \<Rightarrow> world
     \<Rightarrow> 'e outcome \<times> world" where
  "update svc resource params hs w =
     (let req = Request PUT (apiUrl svc @ ''/'' @ id_text w resource)
                  (Some (Resource resource)) params hs;
          w1 = emit (Sent req) w
      in case http svc req of
           Inl err \<Rightarrow> (Rejected err, w1)
         | Inr data \<Rightarrow>
             (Resolved (RRef resource),
              if truthy_json data then merge resource data w1 else w1))"

definition patch ::
  "'e ResourceService \<Rightarrow> addr \<Rightarrow> HttpParams option \<Rightarrow> HttpHeaders option \<Rightarrow> world
     \<Rightarrow> 'e outcome \<times> world" where
  "patch svc resource params hs w =
     (let req = Request PATCH (apiUrl svc @ ''/'' @ id_text w resource)
                  (Some (Resource resource)) params hs;
          w1 = emit (Sent req) w
      in case http svc req of
           Inl err \<Rightarrow> (Rejected err, w1)
         | Inr data \<Rightarrow>
             (Resolved (RRef resource),
              if truthy_json data then merge resource data w1 else w1))"

definition remove ::
  "'e ResourceService \<Rightarrow> addr \<Rightarrow> HttpParams option \<Rightarrow> HttpHeaders option \<Rightarrow> world
     \<Rightarrow> 'e outcome \<times> world" where
  "remove svc resource params hs w =
     (let req = Request DELETE (apiUrl svc @ ''/'' @ id_text w resource) None params hs;
          w1 = emit (Sent req) w
      in case http svc req of
           Inl err \<Rightarrow> (Rejected err, w1)
         | Inr _ \<Rightarrow> (Resolved (RRef resource), w1))"

text \<open>
  \<open>search\<close>: the method may be left out (\<open>None\<close>) and is then \<^verbatim>\<open>'get'\<close>. Only
  \<^verbatim>\<open>'patch'\<close> sends the resource as the body; only \<^verbatim>\<open>'get'\<close> reads the answer.
\<close>

definition search ::
  "'e ResourceService \<Rightarrow> HttpParams \<Rightarrow> search_method option \<Rightarrow> addr option
     \<Rightarrow> HttpHeaders option \<Rightarrow> world \<Rightarrow> 'e outcome \<times> world" where
  "search svc searchParams' method resource hs w =
     (let m = (case method of None \<Rightarrow> Get | Some m' \<Rightarrow> m');
          req = (case m of
                   Patch \<Rightarrow> Request PATCH (apiUrl svc @ ''/search'')
                              (map_option Resource resource) (Some searchParams') hs
                 | Get \<Rightarrow> Request GET (apiUrl svc @ ''/search'') None (Some searchParams') hs
                 | Delete \<Rightarrow> Request DELETE (apiUrl svc @ ''/search'') None (Some searchParams') hs);
          w1 = emit (Sent req) w
      in if m = Get
         then (case http svc req of
                 Inl err \<Rightarrow> (Rejected err, w1)
               | Inr result \<Rightarrow>
                   (case generateListResponse svc result w1 of
                      (Inl e, w2) \<Rightarrow> (Threw e, w2)
                    | (Inr r, w2) \<Rightarrow> (Resolved r, w2)))
         else (case http svc req of
                 Inl err \<Rightarrow> (Rejected err, w1)
               | Inr _ \<Rightarrow> (Resolved RUndefined, w1)))"

definition upload ::
  "'e ResourceService \<Rightarrow> FormData \<Rightarrow> HttpParams option \<Rightarrow> HttpHeaders option \<Rightarrow> world
     \<Rightarrow> 'e outcome \<times> world" where
  "upload svc formData params hs w =
     (let req = Request POST (apiUrl svc @ ''/upload'') (Some (Form formData)) params hs;
          w1 = emit (Sent req) w
      in case http svc req of
           Inl err \<Rightarrow> (Rejected err, w1)
         | Inr data \<Rightarrow> (Resolved (RJson data), w1))"

definition uploadFor ::
  "'e ResourceService \<Rightarrow> addr \<Rightarrow> FormData \<Rightarrow> HttpParams option \<Rightarrow> HttpHeaders option
     \<Rightarrow> world \<Rightarrow> 'e outcome \<times> world" where
  "uploadFor svc resource formData params hs w =
     (let req = Request POST (apiUrl svc @ ''/'' @ id_text w resource @ ''/upload'')
                  (Some (Form formData)) params hs;
          w1 = emit (Sent req) w
      in case http svc req of
           Inl err \<Rightarrow> (Rejected err, w1)
         | Inr data \<Rightarrow> (Resolved (RJson data), w1))"

subsection \<open>The factories of the builders\<close>

text \<open>
  Each factory binds one method of the service and passes it to a builder. \<open>findWhere\<close>
  passes, in this order, the bound \<open>search\<close>, \<open>field\<close> and \<open>value\<close>.
\<close>

definition findAll :: "'e ResourceService \<Rightarrow> GetQuery" where
  "findAll svc = GetQuery_new (Fun ListFn) Undefined"

definition findById :: "'e ResourceService \<Rightarrow> svalue \<Rightarrow> GetQuery" where
  "findById svc i = GetQuery_new (Fun GetFn) (Val i)"

definition findWhere :: "'e ResourceService \<Rightarrow> string \<Rightarrow> svalue \<Rightarrow> SearchQuery" where
  "findWhere svc field v = SearchQuery_new (Fun SearchFn) (SStr field) (Val v)"

text \<open>
  Running a recorded call on the service it was bound to. The three shapes are the ones
  whose arguments have the types the method declares; any other binding of arguments to
  parameters is left out of the model (\<open>None\<close>).
\<close>

definition run :: "'e ResourceService \<Rightarrow> call \<Rightarrow> world \<Rightarrow> ('e outcome \<times> world) option" where
  "run svc c w =
     (case c of
        Call ListFn [AParams p, AHeaders h] \<Rightarrow> Some (list svc (Some p) h w)
      | Call GetFn [AVal i, AParams p, AHeaders h] \<Rightarrow> Some (get svc i (Some p) h w)
      | Call SearchFn [AParams p, AMethod m, AResource r, AHeaders h] \<Rightarrow>
          Some (search svc p (Some m) r h w)
      | _ \<Rightarrow> None)"

section \<open>Fixtures of the test file (\<^verbatim>\<open>resource.service.spec.ts\<close>)\<close>

text \<open>
  The test file declares the model \<open>User\<close> with base path \<^verbatim>\<open>/user\<close> and a hook that
  stamps \<open>instantiated_at\<close>; it answers requests with \<^verbatim>\<open>flush(body)\<close> or with
  \<^verbatim>\<open>error(event)\<close>. \<open>blank\<close> is a store in which nothing has been constructed yet,
  \<open>one_user\<close> a store holding the user \<^verbatim>\<open>{ id: 1, name: 'abc' }\<close> at address \<open>0\<close>.
\<close>

definition stamp :: "props \<Rightarrow> props" where
  "stamp fs = fs(''instantiated_at'' \<mapsto> JStr ''now'')"

definition User :: ModelClass where
  "User = \<lparr> className = ''User'', basePath = ''/user'', initial = Map.empty,
            onInstantiated = Some stamp \<rparr>"

definition flush :: "json \<Rightarrow> request \<Rightarrow> string + json" where
  "flush body req = Inr body"

definition error_event :: "string \<Rightarrow> request \<Rightarrow> string + json" where
  "error_event err req = Inl err"

text \<open>
  \<open>backend\<close> answers as the tests of \<open>get\<close> and \<open>list\<close> do: the user \<open>123\<close> for
  \<^verbatim>\<open>GET /user/123\<close>, the envelope of two users for any other \<^verbatim>\<open>GET\<close>, an empty body
  for everything else.
\<close>

definition backend :: "request \<Rightarrow> string + json" where
  "backend req =
     (case req of
        Request GET url body params hs \<Rightarrow>
          if url = ''/user/123''
          then Inr (JObj [(''id'', JNum 123), (''name'', JStr ''abc'')])
          else Inr (JObj [(''data'', JArr [JObj [(''id'', JNum 1), (''name'', JStr ''abc'')],
                                           JObj [(''id'', JNum 2), (''name'', JStr ''def'')]]),
                          (''meta'', JObj [(''count'', JNum 2)])])
      | _ \<Rightarrow> Inr JNull)"

definition blank :: world where
  "blank =
     \<lparr> heap = (\<lambda>a. \<lparr> proto = ClassProto ''Object'', props = Map.empty \<rparr>),
       next_addr = 0, log = [] \<rparr>"

definition one_user :: world where
  "one_user =
     \<lparr> heap = (\<lambda>a. \<lparr> proto = ClassProto ''Object'', props = Map.empty \<rparr>)
                (0 := \<lparr> proto = ClassProto ''User'',
                        props = [''id'' \<mapsto> JNum 1, ''name'' \<mapsto> JStr ''abc''] \<rparr>),
       next_addr = 1, log = [] \<rparr>"

section \<open>Materialization as the specification words it\<close>

text \<open>
  The specification describes materialization per raw record: a new instance of the
  model, the record's fields copied over the instance's own, then the hook, if the model
  declares one, once. \<open>spec_materialized\<close> is the store that description yields for a list
  of raw records: the instances, each with the prototype of the model class, take the
  next free addresses in order; every other object
  is as before; the log gains, per instance, its construction followed by its hook.
  It is compared below with what \<open>instantiate\<close> and \<open>materialize\<close> compute.
\<close>

definition after_hook :: "ModelClass \<Rightarrow> props \<Rightarrow> props" where
  "after_hook mc fs = (case onInstantiated mc of None \<Rightarrow> fs | Some hook \<Rightarrow> hook fs)"

definition instance_events :: "ModelClass \<Rightarrow> addr \<Rightarrow> event list" where
  "instance_events mc a =
     Created a # (case onInstantiated mc of None \<Rightarrow> [] | Some hook \<Rightarrow> [Hooked a])"

definition spec_materialized :: "ModelClass \<Rightarrow> json list \<Rightarrow> world \<Rightarrow> world" where
  "spec_materialized mc rows w =
     w\<lparr> heap := (\<lambda>a. if next_addr w \<le> a \<and> a < next_addr w + length rows
                    then \<lparr> proto = ClassProto (className mc),
                           props = after_hook mc
                             (initial mc ++ map_of (rev (own_entries (rows ! (a - next_addr w))))) \<rparr>
                    else heap w a),
        next_addr := next_addr w + length rows,
        log := log w @ concat (map (instance_events mc) [next_addr w ..< next_addr w + length rows]) \<rparr>"

section \<open>Properties of the builders\<close>

lemma map_of_params_set:
  "map_of (params_set k v ps) = (map_of ps)(k \<mapsto> v)"
  by (simp add: params_set_def update_conv')

lemma update_fresh_key:
  "k \<notin> fst ` set ps \<Longrightarrow> AList.update k v ps = ps @ [(k, v)]"
  by (induction ps) auto

text \<open>\<open>getHttpParams\<close> reads the four read-parameter fields of the builder and nothing else.\<close>

lemma getHttpParams_cong:
  assumes "onlyFields q' = onlyFields q" "limitResult q' = limitResult q"
    "pageNumber q' = pageNumber q" "orderByFields q' = orderByFields q"
  shows "getHttpParams q' = getHttpParams q"
  unfolding getHttpParams_def assms by (rule refl)

subsection \<open>Pagination\<close>

text \<open>
  Claim C10. For every builder, after \<open>limit(0)\<close> the serialized parameters have no key
  \<open>limit\<close>, and after \<open>page(0)\<close> no key \<open>page\<close>, whatever was stored before. In general
  the key is present exactly when the stored number is set and not zero, and then holds
  its decimal text.
\<close>

theorem falsy_limit_page_omitted:
  "map_of (getHttpParams (limit 0 q)) (str ''limit'') = None
   \<and> map_of (getHttpParams (page 0 q)) (str ''page'') = None
   \<and> map_of (getHttpParams q) (str ''limit'') =
       (case limitResult q of
          None \<Rightarrow> None
        | Some n \<Rightarrow> if n = 0 then None else Some (show_int n))
   \<and> map_of (getHttpParams q) (str ''page'') =
       (case pageNumber q of
          None \<Rightarrow> None
        | Some n \<Rightarrow> if n = 0 then None else Some (show_int n))"
  by (simp add: getHttpParams_def limit_def page_def map_of_params_set Let_def
      split: option.splits)

subsection \<open>Ordering\<close>

text \<open>
  Claim C7. Each \<open>orderBy\<close> call appends one entry (the direction is \<open>asc\<close> when left
  out); the parameter \<open>order\<close> is absent when there is no entry and is otherwise the JSON
  text of the entries; that text lists the entries one by one in the order they are
  stored, so nothing is sorted or merged. On a builder without earlier entries,
  \<open>orderBy('a','asc')\<close> then \<open>orderBy('b','desc')\<close> gives
  \<^verbatim>\<open>order=[["a","asc"],["b","desc"]]\<close>.
\<close>

theorem orderBy_accumulates:
  \<open>orderByFields (orderBy field t q) =
     orderByFields q @ [\<lparr> ob_field = field, ob_type = (case t of None \<Rightarrow> Asc | Some d \<Rightarrow> d) \<rparr>]
   \<and> map_of (getHttpParams q) (str ''order'') =
       (if orderByFields q = [] then None
        else Some (JSON_stringify (orderByArray (orderByFields q))))
   \<and> JSON_stringify (orderByArray obs) =
       ''['' @ join '','' (map (\<lambda>ob. ''['' @ json_quote (ob_field ob) @ '','' @
                                       json_quote (order_text (ob_type ob)) @ '']'') obs) @ '']''
   \<and> (orderByFields q = [] \<longrightarrow>
       map_of (getHttpParams (orderBy ''b'' (Some Desc) (orderBy ''a'' (Some Asc) q))) (str ''order'') =
         Some ''[["a","asc"],["b","desc"]]'')\<close>
proof -
  have a: "orderByFields (orderBy field t q) =
     orderByFields q @ [\<lparr> ob_field = field, ob_type = (case t of None \<Rightarrow> Asc | Some d \<Rightarrow> d) \<rparr>]"
    for field t and q :: "'a GetQuery_scheme"
    by (simp add: orderBy_def)
  have b: "map_of (getHttpParams q) (str ''order'') =
       (if orderByFields q = [] then None
        else Some (JSON_stringify (orderByArray (orderByFields q))))" for q :: "'a GetQuery_scheme"
    by (simp add: getHttpParams_def Let_def map_of_params_set split: option.splits)
  have c: "JSON_stringify (orderByArray obs) =
       ''['' @ join '','' (map (\<lambda>ob. ''['' @ json_quote (ob_field ob) @ '','' @
                                       json_quote (order_text (ob_type ob)) @ '']'') obs) @ '']''"
    by (simp add: orderByArray_def comp_def)
  have d: \<open>orderByFields q = [] \<Longrightarrow>
       map_of (getHttpParams (orderBy ''b'' (Some Desc) (orderBy ''a'' (Some Asc) q))) (str ''order'') =
         Some ''[["a","asc"],["b","desc"]]''\<close>
    by (simp add: b a orderByArray_def json_quote_def json_escape_def)
  show ?thesis
    using a b c d by blast
qed

theorem orderBy_accumulates_witness:
  \<open>orderByFields (GetQuery_new (Fun ListFn) Undefined) = []
   \<and> map_of (getHttpParams (orderBy ''b'' (Some Desc) (orderBy ''a'' (Some Asc)
         (GetQuery_new (Fun ListFn) Undefined)))) (str ''order'') =
       Some ''[["a","asc"],["b","desc"]]''\<close>
  using orderBy_accumulates [where q = "GetQuery_new (Fun ListFn) Undefined"]
  by (simp add: GetQuery_new_def)

subsection \<open>Headers\<close>







subsection \<open>The terminal call of \<open>GetQuery\<close>\<close>

text \<open>What \<open>get()\<close> does when the handler is a function: the identifier decides by its truth value.\<close>

lemma GetQuery_get_call:
  "getHandler q = Fun f \<Longrightarrow>
   GetQuery_get q =
     Inr (Call f (if truthy (id' q)
                  then [AVal (id' q), AParams (getHttpParams q), AHeaders (getHttpHeaders q)]
                  else [AParams (getHttpParams q), AHeaders (getHttpHeaders q)]))"
  by (simp add: GetQuery_get_def invoke_def Let_def)

lemma findAll_get:
  "GetQuery_get (findAll svc) = Inr (Call ListFn [AParams [], AHeaders None])"
  by (simp add: GetQuery_get_def findAll_def GetQuery_new_def invoke_def getHttpParams_def
      getHttpHeaders_def)

lemma findById_truthy_get:
  "truthy (Val i) \<Longrightarrow>
   GetQuery_get (findById svc i) = Inr (Call GetFn [AVal (Val i), AParams [], AHeaders None])"
  by (simp add: GetQuery_get_def findById_def GetQuery_new_def invoke_def getHttpParams_def
      getHttpHeaders_def)

text \<open>
  Claim C2, at the identifiers \<open>0\<close> and \<open>''\<close>. \<open>findById\<close> binds the single-resource method
  and stores the identifier, but \<open>get()\<close> tests the identifier's truth value: for these two
  identifiers it calls the single-resource method with \<open>(params, headers)\<close>, the identifier
  left out, where the claim says \<open>(id, params, headers)\<close>.
\<close>

theorem findById_falsy_id_dropped:
  "GetQuery_get (findById svc (SNum 0)) = Inr (Call GetFn [AParams [], AHeaders None])
   \<and> GetQuery_get (findById svc (SStr [])) = Inr (Call GetFn [AParams [], AHeaders None])"
  by (simp add: GetQuery_get_def findById_def GetQuery_new_def invoke_def getHttpParams_def
      getHttpHeaders_def)

subsection \<open>The terminal calls of \<open>SearchQuery\<close>\<close>

lemma foldl_params_set_append:
  "distinct (map sp_field sps) \<Longrightarrow> sp_field ` set sps \<inter> fst ` set ps = {} \<Longrightarrow>
   foldl (\<lambda>params searchParam.
            params_set (sp_field searchParam) (sp_value searchParam) params) ps sps =
   ps @ map (\<lambda>sp. (sp_field sp, sp_value sp)) sps"
proof (induction sps arbitrary: ps)
  case Nil
  show ?case by simp
next
  case (Cons sp sps)
  have new: "sp_field sp \<notin> fst ` set ps"
    using Cons.prems(2) by auto
  have step: "params_set (sp_field sp) (sp_value sp) ps = ps @ [(sp_field sp, sp_value sp)]"
    using new by (simp add: params_set_def update_fresh_key)
  have d: "distinct (map sp_field sps)"
    using Cons.prems(1) by simp
  have disj: "sp_field ` set sps \<inter> fst ` set (ps @ [(sp_field sp, sp_value sp)]) = {}"
    using Cons.prems by auto
  show ?case
    using Cons.IH [OF d disj] by (simp add: step)
qed

lemma andWhere_all:
  "searchParams (foldl (\<lambda>q (field, v). andWhere field v q) q calls) =
     searchParams q @ map (\<lambda>(field, v). \<lparr> sp_field = str field, sp_value = toString v \<rparr>) calls"
  by (induction calls arbitrary: q) (auto simp: andWhere_def)

text \<open>
  Claim C1, at \<open>findWhere('id', [1,2,3]).remove()\<close>. \<open>findWhere\<close> hands the constructor
  the bound \<open>search\<close> where it expects the field, the field where it expects the value and
  the value where it expects the handler. The builder's handler is then the array
  \<open>[1,2,3]\<close>; \<open>remove()\<close> calls it and throws, and so do \<open>get()\<close> and \<open>patch()\<close>. No call
  reaches the service, so no request is sent.
\<close>

theorem findWhere_terminal_throws:
  "SearchQuery_remove (findWhere svc ''id'' (SArr [SNum 1, SNum 2, SNum 3])) = Inl TypeError
   \<and> searchHandler (findWhere svc ''id'' (SArr [SNum 1, SNum 2, SNum 3])) =
       Val (SArr [SNum 1, SNum 2, SNum 3])
   \<and> SearchQuery_remove (findWhere svc field v) = Inl TypeError
   \<and> SearchQuery_get (findWhere svc field v) = Inl TypeError
   \<and> SearchQuery_patch resource (findWhere svc field v) = Inl TypeError"
  by (simp add: SearchQuery_remove_def SearchQuery_get_def SearchQuery_patch_def findWhere_def
      SearchQuery_new_def invoke_def)

text \<open>
  With the arguments in the order the constructor declares, the same chain sends the one
  request the tests expect: \<^verbatim>\<open>DELETE /search?id=1,2,3\<close>.
\<close>

lemma declared_order_remove:
  "SearchQuery_remove (SearchQuery_new (str ''id'') (SArr [SNum 1, SNum 2, SNum 3]) (Fun SearchFn)) =
     Inr (Call SearchFn [AParams [(str ''id'', ''1,2,3'')], AMethod Delete, AResource None,
                         AHeaders None])"
  by (simp add: SearchQuery_remove_def SearchQuery_new_def invoke_def getHttpParams_def
      getHttpHeaders_def params_set_def show_int_def digits.simps)

lemma declared_order_request:
  "\<exists>r. run svc (Call SearchFn [AParams [(str ''id'', ''1,2,3'')], AMethod Delete, AResource None,
                               AHeaders None]) w = Some r
       \<and> log (snd r) = log w @ [Sent (Request DELETE (apiUrl svc @ ''/search'') None
                                        (Some [(str ''id'', ''1,2,3'')]) None)]"
  by (simp add: run_def search_def Let_def emit_def split: sum.splits)

text \<open>
  Claim C6 as stated fails where a filter field repeats: the third filter replaces the
  value of the first, in the first one's place, so the parameters sent hold two pairs
  and \<open>a\<close> comes before \<open>b\<close>.
\<close>

theorem repeated_filter_field_replaces:
  "SearchQuery_get (andWhere ''a'' (SNum 3) (andWhere ''b'' (SNum 2)
      (SearchQuery_new (str ''a'') (SNum 1) (Fun SearchFn)))) =
   Inr (Call SearchFn [AParams [(str ''a'', ''3''), (str ''b'', ''2'')], AMethod Get,
                       AResource None, AHeaders None])"
  by (simp add: SearchQuery_get_def SearchQuery_new_def andWhere_def invoke_def getHttpParams_def
      getHttpHeaders_def params_set_def show_int_def digits.simps)

text \<open>
  Claim C6, amended. Each \<open>andWhere\<close> call appends one pair to the builder's filters and
  leaves its read parameters alone, so a sequence of calls appends its pairs in call
  order. When the filter fields are pairwise distinct and none of them is the key of a
  read parameter being sent, each of \<open>get\<close>, \<open>remove\<close> and \<open>patch\<close> passes the read
  parameters followed by the filter pairs, in the order they were added.
\<close>

theorem filters_follow_read_params:
  "searchParams (andWhere field v q) =
     searchParams q @ [\<lparr> sp_field = str field, sp_value = toString v \<rparr>]
   \<and> getHttpParams (andWhere field v q) = getHttpParams q
   \<and> searchParams (foldl (\<lambda>q (field, v). andWhere field v q) q calls) =
       searchParams q @ map (\<lambda>(field, v). \<lparr> sp_field = str field, sp_value = toString v \<rparr>) calls
   \<and> (distinct (map sp_field (searchParams q))
        \<and> sp_field ` set (searchParams q) \<inter> fst ` set (getHttpParams q) = {} \<longrightarrow>
      SearchQuery_get q =
        invoke (searchHandler q)
          [AParams (getHttpParams q @ map (\<lambda>sp. (sp_field sp, sp_value sp)) (searchParams q)),
           AMethod Get, AResource None, AHeaders (getHttpHeaders q)]
      \<and> SearchQuery_remove q =
        invoke (searchHandler q)
          [AParams (getHttpParams q @ map (\<lambda>sp. (sp_field sp, sp_value sp)) (searchParams q)),
           AMethod Delete, AResource None, AHeaders (getHttpHeaders q)]
      \<and> SearchQuery_patch resource q =
        invoke (searchHandler q)
          [AParams (getHttpParams q @ map (\<lambda>sp. (sp_field sp, sp_value sp)) (searchParams q)),
           AMethod Patch, AResource (Some resource), AHeaders (getHttpHeaders q)])"
proof -
  have a: "searchParams (andWhere field v q) =
     searchParams q @ [\<lparr> sp_field = str field, sp_value = toString v \<rparr>]"
    by (simp add: andWhere_def)
  have b: "getHttpParams (andWhere field v q) = getHttpParams q"
    by (rule getHttpParams_cong) (simp_all add: andWhere_def)
  show ?thesis
    by (simp add: a b andWhere_all SearchQuery_get_def SearchQuery_remove_def
        SearchQuery_patch_def foldl_params_set_append)
qed

theorem filters_follow_read_params_witness:
  "SearchQuery_get (andWhere ''name'' (SStr ''abc'')
      (limit 10 (SearchQuery_new (str ''id'') (SArr [SNum 1, SNum 2, SNum 3]) (Fun SearchFn)))) =
   Inr (Call SearchFn
         [AParams [(str ''limit'', ''10''), (str ''id'', ''1,2,3''), (str ''name'', ''abc'')],
          AMethod Get, AResource None, AHeaders None])"
  using filters_follow_read_params [where q = "andWhere ''name'' (SStr ''abc'')
      (limit 10 (SearchQuery_new (str ''id'') (SArr [SNum 1, SNum 2, SNum 3]) (Fun SearchFn)))"]
  by (simp add: andWhere_def limit_def SearchQuery_new_def getHttpParams_def getHttpHeaders_def
      params_set_def invoke_def show_int_def digits.simps)

section \<open>Properties of the service\<close>

lemma emit_simps:
  "heap (emit e w) = heap w" "next_addr (emit e w) = next_addr w" "log (emit e w) = log w @ [e]"
  by (simp_all add: emit_def)

lemma world_eqI:
  "(\<And>a. heap w a = heap w' a) \<Longrightarrow> next_addr w = next_addr w' \<Longrightarrow> log w = log w' \<Longrightarrow>
   w = (w' :: world)"
  by (cases w, cases w') (simp add: fun_eq_iff)

text \<open>
  When the source has no entry named \<^verbatim>\<open>__proto__\<close>, \<^verbatim>\<open>Object.assign\<close> keeps the
  target's prototype and overrides its fields with the source's entries.
\<close>

lemma foldl_set_property_fields:
  "''__proto__'' \<notin> fst ` set es \<Longrightarrow>
   proto (foldl set_property ob es) = proto ob
   \<and> props (foldl set_property ob es) = props ob ++ map_of (rev es)"
proof (induction es arbitrary: ob)
  case Nil
  show ?case by simp
next
  case (Cons e es)
  obtain k v where e: "e = (k, v)" by (cases e)
  have k: "k \<noteq> ''__proto__''" and rest: "''__proto__'' \<notin> fst ` set es"
    using Cons.prems e by auto
  have step: "proto (set_property ob (k, v)) = proto ob"
    "props (set_property ob (k, v)) = (props ob)(k \<mapsto> v)"
    using k by (simp_all add: set_property_def)
  have m: "(props ob)(k \<mapsto> v) ++ map_of (rev es) = props ob ++ map_of (rev ((k, v) # es))"
    by (rule ext) (auto simp: map_add_def map_of_append split: option.splits)
  show ?case
    using Cons.IH [OF rest, of "set_property ob (k, v)"]
    unfolding e foldl_Cons step m by simp
qed

lemma Object_assign_plain:
  "''__proto__'' \<notin> fst ` set (own_entries source) \<Longrightarrow>
   Object_assign target source =
     target\<lparr> props := props target ++ map_of (rev (own_entries source)) \<rparr>"
  unfolding Object_assign_def
  by (rule obj.equality) (simp_all add: foldl_set_property_fields)

lemma no_entry_None:
  "k \<notin> fst ` set es \<Longrightarrow> map_of (rev es) k = None"
  by (simp add: map_of_eq_None_iff)

lemma falsy_no_entries: "\<not> truthy_json data \<Longrightarrow> own_entries data = []"
  by (cases data) simp_all

lemma merge_plain:
  "''__proto__'' \<notin> fst ` set (own_entries data) \<Longrightarrow>
   merge resource data w =
     w\<lparr> heap := (heap w)(resource :=
          (heap w resource)\<lparr> props := props (heap w resource) ++ map_of (rev (own_entries data)) \<rparr>) \<rparr>"
  by (simp add: merge_def Object_assign_plain)

lemma merge_frame:
  "next_addr (merge resource data w) = next_addr w" "log (merge resource data w) = log w"
  "a \<noteq> resource \<Longrightarrow> heap (merge resource data w) a = heap w a"
  by (simp_all add: merge_def)

subsection \<open>Materialization\<close>

lemma upt_head: "[n ..< Suc (n + k)] = n # [Suc n ..< Suc (n + k)]"
  by (rule upt_conv_Cons) simp

lemma instantiate_spec:
  assumes "initial mc ''onInstantiated'' = None"
    and "''onInstantiated'' \<notin> fst ` set (own_entries raw)"
    and "''__proto__'' \<notin> fst ` set (own_entries raw)"
  shows "instantiate mc raw w = (Inr (next_addr w), spec_materialized mc [raw] w)"
proof -
  have ob: "Object_assign \<lparr> proto = ClassProto (className mc), props = initial mc \<rparr> raw =
      \<lparr> proto = ClassProto (className mc),
        props = initial mc ++ map_of (rev (own_entries raw)) \<rparr>"
    using assms(3) by (simp add: Object_assign_plain)
  have none: "(initial mc ++ map_of (rev (own_entries raw))) ''onInstantiated'' = None"
    using assms(1,2) by (simp add: map_add_def no_entry_None)
  have "snd (instantiate mc raw w) = spec_materialized mc [raw] w"
    by (rule world_eqI)
       (auto simp: instantiate_def spec_materialized_def Let_def emit_def after_hook_def
          instance_events_def ob none get_onInstantiated_def get_property_def
          split: option.splits)
  moreover have "fst (instantiate mc raw w) = Inr (next_addr w)"
    by (simp add: instantiate_def Let_def ob none get_onInstantiated_def get_property_def
        split: option.splits)
  ultimately show ?thesis
    by (simp add: prod_eq_iff)
qed

lemma spec_materialized_Nil: "spec_materialized mc [] w = w"
  by (rule world_eqI) (auto simp: spec_materialized_def)

lemma spec_materialized_Cons:
  "spec_materialized mc rows (spec_materialized mc [row] w) = spec_materialized mc (row # rows) w"
proof (rule world_eqI)
  show "heap (spec_materialized mc rows (spec_materialized mc [row] w)) a
      = heap (spec_materialized mc (row # rows) w) a" for a
    by (auto simp: spec_materialized_def nth_Cons' Suc_diff_le)
  show "next_addr (spec_materialized mc rows (spec_materialized mc [row] w))
        = next_addr (spec_materialized mc (row # rows) w)"
    by (simp add: spec_materialized_def)
  show "log (spec_materialized mc rows (spec_materialized mc [row] w))
        = log (spec_materialized mc (row # rows) w)"
  proof -
    have one: "[next_addr w ..< Suc (next_addr w)] = [next_addr w]"
      by simp
    show ?thesis
      by (simp add: spec_materialized_def upt_head one del: upt_Suc)
  qed
qed

lemma materialize_spec:
  assumes "initial mc ''onInstantiated'' = None"
    and "\<forall>row \<in> set rows. ''onInstantiated'' \<notin> fst ` set (own_entries row)
                            \<and> ''__proto__'' \<notin> fst ` set (own_entries row)"
  shows "materialize mc rows w =
           (Inr [next_addr w ..< next_addr w + length rows], spec_materialized mc rows w)"
  using assms(2)
proof (induction rows arbitrary: w)
  case Nil
  show ?case by (simp add: spec_materialized_Nil)
next
  case (Cons row rows)
  have one: "instantiate mc row w = (Inr (next_addr w), spec_materialized mc [row] w)"
    using assms(1) Cons.prems by (simp add: instantiate_spec)
  have nxt: "next_addr (spec_materialized mc [row] w) = Suc (next_addr w)"
    by (simp add: spec_materialized_def)
  have rest: "materialize mc rows (spec_materialized mc [row] w) =
      (Inr [Suc (next_addr w) ..< Suc (next_addr w) + length rows],
       spec_materialized mc (row # rows) w)"
    using Cons.IH [of "spec_materialized mc [row] w"] Cons.prems
    by (simp add: nxt spec_materialized_Cons)
  show ?case
    by (simp add: one rest upt_head del: upt_Suc)
qed

lemma generateListResponse_spec:
  assumes "initial (modelClass svc) ''onInstantiated'' = None"
    and "map_of (rev fs) ''data'' = Some (JArr rows)"
    and "\<forall>row \<in> set rows. ''onInstantiated'' \<notin> fst ` set (own_entries row)
                            \<and> ''__proto__'' \<notin> fst ` set (own_entries row)"
  shows "generateListResponse svc (JObj fs) w =
           (Inr (RList fs [next_addr w ..< next_addr w + length rows]),
            spec_materialized (modelClass svc) rows w)"
  using assms by (simp add: generateListResponse_def materialize_spec)

text \<open>
  Claim C3 as stated fails for two kinds of raw record. The model \<open>User\<close> declares the
  hook. When the transport answers \<^verbatim>\<open>{ id: 123, onInstantiated: null }\<close>, the copied
  field hides the method of the class: the promise resolves with the new instance and
  the hook has not run. When it answers \<^verbatim>\<open>{ id: 5, __proto__: { name: 'x' } }\<close>, the
  write to \<^verbatim>\<open>__proto__\<close> replaces the prototype: the promise resolves with an object
  that is no instance of \<open>User\<close>, onto which that field was not copied, and the hook has
  not run.
\<close>

theorem hook_hidden_or_prototype_replaced:
  "onInstantiated User = Some stamp
   \<and> fst (get (ResourceService_new [] (flush (JObj [(''id'', JNum 123), (''onInstantiated'', JNull)])) User)
            (Val (SNum 123)) None None blank) = Resolved (RRef 0)
   \<and> log (snd (get (ResourceService_new [] (flush (JObj [(''id'', JNum 123), (''onInstantiated'', JNull)])) User)
            (Val (SNum 123)) None None blank))
       = [Sent (Request GET ''/user/123'' None None None), Created 0]
   \<and> fst (get (ResourceService_new []
                 (flush (JObj [(''id'', JNum 5), (''__proto__'', JObj [(''name'', JStr ''x'')])])) User)
            (Val (SNum 5)) None None blank) = Resolved (RRef 0)
   \<and> heap (snd (get (ResourceService_new []
                 (flush (JObj [(''id'', JNum 5), (''__proto__'', JObj [(''name'', JStr ''x'')])])) User)
            (Val (SNum 5)) None None blank)) 0
       = \<lparr> proto = ValueProto (JObj [(''name'', JStr ''x'')]), props = [''id'' \<mapsto> JNum 5] \<rparr>
   \<and> log (snd (get (ResourceService_new []
                 (flush (JObj [(''id'', JNum 5), (''__proto__'', JObj [(''name'', JStr ''x'')])])) User)
            (Val (SNum 5)) None None blank))
       = [Sent (Request GET ''/user/5'' None None None), Created 0]"
  by (simp add: User_def get_def ResourceService_new_def flush_def blank_def instantiate_def
      Object_assign_def set_property_def inherits_proto_setter_def get_onInstantiated_def
      get_property_def emit_def Let_def show_int_def digits.simps)

text \<open>
  Claim C3, amended. Let the model's new instances start without a field named
  \<open>onInstantiated\<close>. For every raw record with no own field named \<open>onInstantiated\<close> and
  none named \<^verbatim>\<open>__proto__\<close> that the transport returns for \<open>get\<close>, and for every array of
  such records under \<open>data\<close> in the answer to \<open>list\<close> or to \<open>search\<close> with \<open>get\<close>, the
  promise resolves with references to
  new instances, one per record in order, and the store is the one the specification
  describes: each instance is of the model class and holds the record's fields copied
  over its initial ones, the hook, if declared, having run once on it after the copy;
  no other object has changed.
\<close>

theorem materialization_refines_spec:
  assumes "initial (modelClass svc) ''onInstantiated'' = None"
  shows
    "(http svc (Request GET (apiUrl svc @ ''/'' @ concat_text i) None params hs) = Inr raw
        \<and> ''onInstantiated'' \<notin> fst ` set (own_entries raw)
        \<and> ''__proto__'' \<notin> fst ` set (own_entries raw) \<longrightarrow>
      get svc i params hs w =
        (Resolved (RRef (next_addr w)),
         spec_materialized (modelClass svc) [raw]
           (emit (Sent (Request GET (apiUrl svc @ ''/'' @ concat_text i) None params hs)) w)))
   \<and> (http svc (Request GET (apiUrl svc) None params hs) = Inr (JObj fs)
        \<and> map_of (rev fs) ''data'' = Some (JArr rows)
        \<and> (\<forall>row \<in> set rows. ''onInstantiated'' \<notin> fst ` set (own_entries row)
                                \<and> ''__proto__'' \<notin> fst ` set (own_entries row)) \<longrightarrow>
      list svc params hs w =
        (Resolved (RList fs [next_addr w ..< next_addr w + length rows]),
         spec_materialized (modelClass svc) rows
           (emit (Sent (Request GET (apiUrl svc) None params hs)) w)))
   \<and> (http svc (Request GET (apiUrl svc @ ''/search'') None (Some sp) hs) = Inr (JObj fs)
        \<and> map_of (rev fs) ''data'' = Some (JArr rows)
        \<and> (\<forall>row \<in> set rows. ''onInstantiated'' \<notin> fst ` set (own_entries row)
                                \<and> ''__proto__'' \<notin> fst ` set (own_entries row)) \<longrightarrow>
      search svc sp (Some Get) r hs w =
        (Resolved (RList fs [next_addr w ..< next_addr w + length rows]),
         spec_materialized (modelClass svc) rows
           (emit (Sent (Request GET (apiUrl svc @ ''/search'') None (Some sp) hs)) w)))"
proof (intro conjI impI)
  assume "http svc (Request GET (apiUrl svc @ ''/'' @ concat_text i) None params hs) = Inr raw
        \<and> ''onInstantiated'' \<notin> fst ` set (own_entries raw)
        \<and> ''__proto__'' \<notin> fst ` set (own_entries raw)"
  then show "get svc i params hs w =
        (Resolved (RRef (next_addr w)),
         spec_materialized (modelClass svc) [raw]
           (emit (Sent (Request GET (apiUrl svc @ ''/'' @ concat_text i) None params hs)) w))"
    using assms by (simp add: get_def Let_def instantiate_spec emit_simps)
next
  assume "http svc (Request GET (apiUrl svc) None params hs) = Inr (JObj fs)
        \<and> map_of (rev fs) ''data'' = Some (JArr rows)
        \<and> (\<forall>row \<in> set rows. ''onInstantiated'' \<notin> fst ` set (own_entries row)
                                \<and> ''__proto__'' \<notin> fst ` set (own_entries row))"
  then show "list svc params hs w =
        (Resolved (RList fs [next_addr w ..< next_addr w + length rows]),
         spec_materialized (modelClass svc) rows
           (emit (Sent (Request GET (apiUrl svc) None params hs)) w))"
    using assms by (simp add: list_def Let_def generateListResponse_spec emit_simps)
next
  assume "http svc (Request GET (apiUrl svc @ ''/search'') None (Some sp) hs) = Inr (JObj fs)
        \<and> map_of (rev fs) ''data'' = Some (JArr rows)
        \<and> (\<forall>row \<in> set rows. ''onInstantiated'' \<notin> fst ` set (own_entries row)
                                \<and> ''__proto__'' \<notin> fst ` set (own_entries row))"
  then show "search svc sp (Some Get) r hs w =
        (Resolved (RList fs [next_addr w ..< next_addr w + length rows]),
         spec_materialized (modelClass svc) rows
           (emit (Sent (Request GET (apiUrl svc @ ''/search'') None (Some sp) hs)) w))"
    using assms by (simp add: search_def Let_def generateListResponse_spec emit_simps)
qed

theorem materialization_refines_spec_witness:
  "fst (get (ResourceService_new [] backend User) (Val (SNum 123)) None None blank) = Resolved (RRef 0)
   \<and> log (snd (get (ResourceService_new [] backend User) (Val (SNum 123)) None None blank)) =
       [Sent (Request GET ''/user/123'' None None None), Created 0, Hooked 0]
   \<and> heap (snd (get (ResourceService_new [] backend User) (Val (SNum 123)) None None blank)) 0 =
       \<lparr> proto = ClassProto ''User'',
         props = [''id'' \<mapsto> JNum 123, ''name'' \<mapsto> JStr ''abc'',
                  ''instantiated_at'' \<mapsto> JStr ''now''] \<rparr>
   \<and> fst (list (ResourceService_new [] backend User) None None blank) =
       Resolved (RList [(''data'', JArr [JObj [(''id'', JNum 1), (''name'', JStr ''abc'')],
                                         JObj [(''id'', JNum 2), (''name'', JStr ''def'')]]),
                        (''meta'', JObj [(''count'', JNum 2)])] [0, 1])
   \<and> log (snd (list (ResourceService_new [] backend User) None None blank)) =
       [Sent (Request GET ''/user'' None None None), Created 0, Hooked 0, Created 1, Hooked 1]
   \<and> log (snd (search (ResourceService_new [] backend User) [(str ''name'', ''abc'')] (Some Get)
                  None None blank)) =
       [Sent (Request GET ''/user/search'' None (Some [(str ''name'', ''abc'')]) None),
        Created 0, Hooked 0, Created 1, Hooked 1]"
proof -
  note inst = materialization_refines_spec
    [where svc = "ResourceService_new [] backend User" and w = blank
      and params = None and hs = None and i = "Val (SNum 123)"
      and raw = "JObj [(''id'', JNum 123), (''name'', JStr ''abc'')]"
      and fs = "[(''data'', JArr [JObj [(''id'', JNum 1), (''name'', JStr ''abc'')],
                                   JObj [(''id'', JNum 2), (''name'', JStr ''def'')]]),
                 (''meta'', JObj [(''count'', JNum 2)])]"
      and rows = "[JObj [(''id'', JNum 1), (''name'', JStr ''abc'')],
                   JObj [(''id'', JNum 2), (''name'', JStr ''def'')]]"
      and sp = "[(str ''name'', ''abc'')]" and r = None]
  have svc: "apiUrl (ResourceService_new [] backend User) = ''/user''"
    "modelClass (ResourceService_new [] backend User) = User"
    "http (ResourceService_new [] backend User) = backend"
    by (simp_all add: ResourceService_new_def User_def)
  have user: "initial User = Map.empty" "onInstantiated User = Some stamp"
    "className User = ''User''"
    by (simp_all add: User_def)
  have start: "next_addr blank = 0" "log blank = []"
    by (simp_all add: blank_def)
  have num: "show_int 123 = ''123''"
    by (simp add: show_int_def digits.simps)
  have two: "[0 ..< Suc (Suc 0)] = [0, Suc 0]"
    by (simp add: upt_rec)
  show ?thesis
    using inst
    by (simp add: svc user start num two backend_def spec_materialized_def emit_def
        after_hook_def instance_events_def stamp_def map_add_def fun_eq_iff)
qed

subsection \<open>Writes\<close>

text \<open>
  Claim C4 as stated fails for a body with a field named \<^verbatim>\<open>__proto__\<close>. Answered with
  \<^verbatim>\<open>{ __proto__: 5 }\<close>, \<open>update\<close> leaves the object as it was: the field present in the
  body is not copied. Answered with \<^verbatim>\<open>{ __proto__: { id: 9 } }\<close>, it copies no field
  either and replaces the prototype of the caller's object.
\<close>

theorem proto_field_of_body_not_copied:
  "update (ResourceService_new [] (flush (JObj [(''__proto__'', JNum 5)])) User) 0 None None one_user =
     (Resolved (RRef 0),
      one_user\<lparr> log := [Sent (Request PUT ''/user/1'' (Some (Resource 0)) None None)] \<rparr>)
   \<and> heap (snd (update (ResourceService_new []
                           (flush (JObj [(''__proto__'', JObj [(''id'', JNum 9)])])) User)
                   0 None None one_user)) 0 =
       \<lparr> proto = ValueProto (JObj [(''id'', JNum 9)]),
         props = [''id'' \<mapsto> JNum 1, ''name'' \<mapsto> JStr ''abc''] \<rparr>"
  by (simp add: update_def merge_def Object_assign_def set_property_def inherits_proto_setter_def
      ResourceService_new_def flush_def User_def one_user_def id_text_def get_property_def
      emit_def Let_def show_int_def digits.simps)

text \<open>
  Claim C4, amended. When the transport answers \<open>update\<close> (or \<open>patch\<close>) with a body, the
  promise resolves with the reference it was given; no object is constructed and no
  other object changes. When the body has no field named \<^verbatim>\<open>__proto__\<close>, the object
  behind the reference keeps its prototype and has every entry of the body written over
  its fields, its other fields as before. When the body is empty (\<^verbatim>\<open>null\<close> or
  \<^verbatim>\<open>{}\<close>), the store is the one before the call, with only the request logged.
\<close>

theorem write_merge_keeps_identity:
  "(http svc (Request PUT (apiUrl svc @ ''/'' @ id_text w resource) (Some (Resource resource)) params hs)
      = Inr data \<longrightarrow>
    fst (update svc resource params hs w) = Resolved (RRef resource)
    \<and> next_addr (snd (update svc resource params hs w)) = next_addr w
    \<and> log (snd (update svc resource params hs w)) =
        log w @ [Sent (Request PUT (apiUrl svc @ ''/'' @ id_text w resource)
                         (Some (Resource resource)) params hs)]
    \<and> (\<forall>a. a \<noteq> resource \<longrightarrow> heap (snd (update svc resource params hs w)) a = heap w a)
    \<and> (''__proto__'' \<notin> fst ` set (own_entries data) \<longrightarrow>
         update svc resource params hs w =
           (Resolved (RRef resource),
            w\<lparr> heap := (heap w)(resource :=
                   (heap w resource)\<lparr> props := props (heap w resource)
                                                  ++ map_of (rev (own_entries data)) \<rparr>),
                log := log w @ [Sent (Request PUT (apiUrl svc @ ''/'' @ id_text w resource)
                                       (Some (Resource resource)) params hs)] \<rparr>))
    \<and> (data = JNull \<or> data = JObj [] \<longrightarrow>
         update svc resource params hs w =
           (Resolved (RRef resource),
            w\<lparr> log := log w @ [Sent (Request PUT (apiUrl svc @ ''/'' @ id_text w resource)
                                  (Some (Resource resource)) params hs)] \<rparr>)))
   \<and> (http svc (Request PATCH (apiUrl svc @ ''/'' @ id_text w resource) (Some (Resource resource)) params hs)
      = Inr data \<longrightarrow>
    fst (patch svc resource params hs w) = Resolved (RRef resource)
    \<and> next_addr (snd (patch svc resource params hs w)) = next_addr w
    \<and> log (snd (patch svc resource params hs w)) =
        log w @ [Sent (Request PATCH (apiUrl svc @ ''/'' @ id_text w resource)
                         (Some (Resource resource)) params hs)]
    \<and> (\<forall>a. a \<noteq> resource \<longrightarrow> heap (snd (patch svc resource params hs w)) a = heap w a)
    \<and> (''__proto__'' \<notin> fst ` set (own_entries data) \<longrightarrow>
         patch svc resource params hs w =
           (Resolved (RRef resource),
            w\<lparr> heap := (heap w)(resource :=
                   (heap w resource)\<lparr> props := props (heap w resource)
                                                  ++ map_of (rev (own_entries data)) \<rparr>),
                log := log w @ [Sent (Request PATCH (apiUrl svc @ ''/'' @ id_text w resource)
                                       (Some (Resource resource)) params hs)] \<rparr>))
    \<and> (data = JNull \<or> data = JObj [] \<longrightarrow>
         patch svc resource params hs w =
           (Resolved (RRef resource),
            w\<lparr> log := log w @ [Sent (Request PATCH (apiUrl svc @ ''/'' @ id_text w resource)
                                  (Some (Resource resource)) params hs)] \<rparr>)))"
proof -
  have plain: "''__proto__'' \<notin> fst ` set (own_entries d) \<Longrightarrow>
      (if truthy_json d then merge resource d w1 else w1) =
        w1\<lparr> heap := (heap w1)(resource :=
               (heap w1 resource)\<lparr> props := props (heap w1 resource)
                                               ++ map_of (rev (own_entries d)) \<rparr>) \<rparr>"
    for d w1
    by (cases "truthy_json d") (simp_all add: merge_plain falsy_no_entries)
  have frame: "next_addr (if truthy_json d then merge resource d w1 else w1) = next_addr w1"
    "log (if truthy_json d then merge resource d w1 else w1) = log w1"
    "a \<noteq> resource \<Longrightarrow> heap (if truthy_json d then merge resource d w1 else w1) a = heap w1 a"
    for d w1 a
    by (simp_all add: merge_frame)
  have empty: "d = JNull \<or> d = JObj [] \<Longrightarrow>
      (if truthy_json d then merge resource d w1 else w1) = w1" for d w1
    by (auto simp: merge_def Object_assign_def)
  show ?thesis
    by (intro conjI impI allI)
       (simp_all add: update_def patch_def Let_def frame plain empty emit_def)
qed

theorem write_merge_keeps_identity_witness:
  "update (ResourceService_new [] (flush (JObj [])) User) 0 None None one_user =
     (Resolved (RRef 0),
      one_user\<lparr> log := [Sent (Request PUT ''/user/1'' (Some (Resource 0)) None None)] \<rparr>)
   \<and> patch (ResourceService_new [] (flush (JObj [])) User) 0 None None one_user =
     (Resolved (RRef 0),
      one_user\<lparr> log := [Sent (Request PATCH ''/user/1'' (Some (Resource 0)) None None)] \<rparr>)
   \<and> update (ResourceService_new [] (flush (JObj [(''name'', JStr ''xyz'')])) User) 0 None None one_user =
     (Resolved (RRef 0),
      one_user\<lparr> heap := (heap one_user)
                  (0 := \<lparr> proto = ClassProto ''User'',
                          props = [''id'' \<mapsto> JNum 1, ''name'' \<mapsto> JStr ''xyz''] \<rparr>),
                log := [Sent (Request PUT ''/user/1'' (Some (Resource 0)) None None)] \<rparr>)"
  using
    write_merge_keeps_identity
      [of "ResourceService_new [] (flush (JObj [])) User" one_user 0 None None "JObj []"]
    write_merge_keeps_identity
      [of "ResourceService_new [] (flush (JObj [(''name'', JStr ''xyz'')])) User" one_user 0 None None
          "JObj [(''name'', JStr ''xyz'')]"]
  by (simp add: ResourceService_new_def flush_def User_def one_user_def id_text_def
      get_property_def show_int_def digits.simps map_add_def fun_eq_iff)

subsection \<open>Removal\<close>

text \<open>
  Claim C8. \<open>remove\<close> sends one \<open>DELETE\<close> for the resource; when the transport answers
  with any body, the promise resolves with the reference it was given and the store is
  the one before the call with only the request logged: no field of any object changes.
\<close>

theorem remove_leaves_resource_untouched:
  "http svc (Request DELETE (apiUrl svc @ ''/'' @ id_text w resource) None params hs) = Inr body \<Longrightarrow>
   remove svc resource params hs w =
     (Resolved (RRef resource),
      w\<lparr> log := log w @ [Sent (Request DELETE (apiUrl svc @ ''/'' @ id_text w resource)
                             None params hs)] \<rparr>)"
  by (simp add: remove_def Let_def emit_def)

theorem remove_leaves_resource_untouched_witness:
  "remove (ResourceService_new [] (flush (JObj [(''name'', JStr ''gone'')])) User) 0 None None one_user =
     (Resolved (RRef 0), one_user\<lparr> log := [Sent (Request DELETE ''/user/1'' None None None)] \<rparr>)"
  using remove_leaves_resource_untouched
    [of "ResourceService_new [] (flush (JObj [(''name'', JStr ''gone'')])) User" one_user 0 None None
        "JObj [(''name'', JStr ''gone'')]"]
  by (simp add: ResourceService_new_def flush_def User_def one_user_def id_text_def
      get_property_def show_int_def digits.simps)

subsection \<open>Failure\<close>

text \<open>
  Claim C5. For each of \<open>list\<close>, \<open>get\<close>, \<open>create\<close>, \<open>update\<close>, \<open>patch\<close>, \<open>remove\<close>,
  \<open>search\<close> (with each method, and with the method left out), \<open>upload\<close> and \<open>uploadFor\<close>:
  when the transport answers the operation's request with an error, the promise rejects
  with that error, and the store is the one before the call with only the request
  logged: nothing is constructed and nothing is merged.
\<close>

theorem failure_propagation:
  "(http svc (Request GET (apiUrl svc) None params hs) = Inl e \<longrightarrow>
      list svc params hs w =
        (Rejected e, w\<lparr> log := log w @ [Sent (Request GET (apiUrl svc) None params hs)] \<rparr>))
   \<and> (http svc (Request GET (apiUrl svc @ ''/'' @ concat_text i) None params hs) = Inl e \<longrightarrow>
      get svc i params hs w =
        (Rejected e,
         w\<lparr> log := log w @ [Sent (Request GET (apiUrl svc @ ''/'' @ concat_text i) None params hs)] \<rparr>))
   \<and> (http svc (Request POST (apiUrl svc) (Some (Resource resource)) params hs) = Inl e \<longrightarrow>
      create svc resource params hs w =
        (Rejected e,
         w\<lparr> log := log w @ [Sent (Request POST (apiUrl svc) (Some (Resource resource)) params hs)] \<rparr>))
   \<and> (http svc (Request PUT (apiUrl svc @ ''/'' @ id_text w resource) (Some (Resource resource)) params hs)
        = Inl e \<longrightarrow>
      update svc resource params hs w =
        (Rejected e,
         w\<lparr> log := log w @ [Sent (Request PUT (apiUrl svc @ ''/'' @ id_text w resource)
                                (Some (Resource resource)) params hs)] \<rparr>))
   \<and> (http svc (Request PATCH (apiUrl svc @ ''/'' @ id_text w resource) (Some (Resource resource)) params hs)
        = Inl e \<longrightarrow>
      patch svc resource params hs w =
        (Rejected e,
         w\<lparr> log := log w @ [Sent (Request PATCH (apiUrl svc @ ''/'' @ id_text w resource)
                                (Some (Resource resource)) params hs)] \<rparr>))
   \<and> (http svc (Request DELETE (apiUrl svc @ ''/'' @ id_text w resource) None params hs) = Inl e \<longrightarrow>
      remove svc resource params hs w =
        (Rejected e,
         w\<lparr> log := log w @ [Sent (Request DELETE (apiUrl svc @ ''/'' @ id_text w resource)
                                None params hs)] \<rparr>))
   \<and> (http svc (Request GET (apiUrl svc @ ''/search'') None (Some sp) hs) = Inl e \<longrightarrow>
      search svc sp (Some Get) r hs w =
        (Rejected e,
         w\<lparr> log := log w @ [Sent (Request GET (apiUrl svc @ ''/search'') None (Some sp) hs)] \<rparr>)
      \<and> search svc sp None r hs w =
        (Rejected e,
         w\<lparr> log := log w @ [Sent (Request GET (apiUrl svc @ ''/search'') None (Some sp) hs)] \<rparr>))
   \<and> (http svc (Request PATCH (apiUrl svc @ ''/search'') (map_option Resource r) (Some sp) hs) = Inl e \<longrightarrow>
      search svc sp (Some Patch) r hs w =
        (Rejected e,
         w\<lparr> log := log w @ [Sent (Request PATCH (apiUrl svc @ ''/search'') (map_option Resource r)
                                (Some sp) hs)] \<rparr>))
   \<and> (http svc (Request DELETE (apiUrl svc @ ''/search'') None (Some sp) hs) = Inl e \<longrightarrow>
      search svc sp (Some Delete) r hs w =
        (Rejected e,
         w\<lparr> log := log w @ [Sent (Request DELETE (apiUrl svc @ ''/search'') None (Some sp) hs)] \<rparr>))
   \<and> (http svc (Request POST (apiUrl svc @ ''/upload'') (Some (Form formData)) params hs) = Inl e \<longrightarrow>
      upload svc formData params hs w =
        (Rejected e,
         w\<lparr> log := log w @ [Sent (Request POST (apiUrl svc @ ''/upload'') (Some (Form formData))
                                params hs)] \<rparr>))
   \<and> (http svc (Request POST (apiUrl svc @ ''/'' @ id_text w resource @ ''/upload'')
                  (Some (Form formData)) params hs) = Inl e \<longrightarrow>
      uploadFor svc resource formData params hs w =
        (Rejected e,
         w\<lparr> log := log w @ [Sent (Request POST (apiUrl svc @ ''/'' @ id_text w resource @ ''/upload'')
                                (Some (Form formData)) params hs)] \<rparr>))"
  by (simp add: list_def get_def create_def update_def patch_def remove_def search_def
      upload_def uploadFor_def Let_def emit_def)

theorem failure_propagation_witness:
  "list (ResourceService_new [] (error_event ''down'') User) None None one_user
     = (Rejected ''down'', one_user\<lparr> log := [Sent (Request GET ''/user'' None None None)] \<rparr>)
   \<and> get (ResourceService_new [] (error_event ''down'') User) (Val (SNum 123)) None None one_user
     = (Rejected ''down'', one_user\<lparr> log := [Sent (Request GET ''/user/123'' None None None)] \<rparr>)
   \<and> create (ResourceService_new [] (error_event ''down'') User) 0 None None one_user
     = (Rejected ''down'',
        one_user\<lparr> log := [Sent (Request POST ''/user'' (Some (Resource 0)) None None)] \<rparr>)
   \<and> update (ResourceService_new [] (error_event ''down'') User) 0 None None one_user
     = (Rejected ''down'',
        one_user\<lparr> log := [Sent (Request PUT ''/user/1'' (Some (Resource 0)) None None)] \<rparr>)
   \<and> patch (ResourceService_new [] (error_event ''down'') User) 0 None None one_user
     = (Rejected ''down'',
        one_user\<lparr> log := [Sent (Request PATCH ''/user/1'' (Some (Resource 0)) None None)] \<rparr>)
   \<and> remove (ResourceService_new [] (error_event ''down'') User) 0 None None one_user
     = (Rejected ''down'', one_user\<lparr> log := [Sent (Request DELETE ''/user/1'' None None None)] \<rparr>)
   \<and> search (ResourceService_new [] (error_event ''down'') User) [(str ''id'', ''123'')] (Some Get)
        None None one_user
     = (Rejected ''down'',
        one_user\<lparr> log := [Sent (Request GET ''/user/search'' None
                                   (Some [(str ''id'', ''123'')]) None)] \<rparr>)
   \<and> search (ResourceService_new [] (error_event ''down'') User) [(str ''id'', ''123'')] (Some Patch)
        (Some 0) None one_user
     = (Rejected ''down'',
        one_user\<lparr> log := [Sent (Request PATCH ''/user/search'' (Some (Resource 0))
                                   (Some [(str ''id'', ''123'')]) None)] \<rparr>)
   \<and> search (ResourceService_new [] (error_event ''down'') User) [(str ''id'', ''123'')] (Some Delete)
        None None one_user
     = (Rejected ''down'',
        one_user\<lparr> log := [Sent (Request DELETE ''/user/search'' None
                                   (Some [(str ''id'', ''123'')]) None)] \<rparr>)
   \<and> upload (ResourceService_new [] (error_event ''down'') User) [(''file'', ''a.png'')] None None
        one_user
     = (Rejected ''down'',
        one_user\<lparr> log := [Sent (Request POST ''/user/upload'' (Some (Form [(''file'', ''a.png'')]))
                                   None None)] \<rparr>)
   \<and> uploadFor (ResourceService_new [] (error_event ''down'') User) 0 [(''file'', ''a.png'')] None None
        one_user
     = (Rejected ''down'',
        one_user\<lparr> log := [Sent (Request POST ''/user/1/upload'' (Some (Form [(''file'', ''a.png'')]))
                                   None None)] \<rparr>)"
proof -
  note inst = failure_propagation
    [where svc = "ResourceService_new [] (error_event ''down'') User"
      and params = None and hs = None and e = "''down''" and w = one_user
      and i = "Val (SNum 123)" and resource = 0 and sp = "[(str ''id'', ''123'')]"
      and formData = "[(''file'', ''a.png'')]"]
  have url: "id_text one_user 0 = ''1''" "show_int 123 = ''123''" "log one_user = []"
    by (simp_all add: one_user_def id_text_def get_property_def show_int_def digits.simps)
  have svc: "apiUrl (ResourceService_new [] (error_event ''down'') User) = ''/user''"
    "http (ResourceService_new [] (error_event ''down'') User) req = Inl ''down''" for req
    by (simp_all add: ResourceService_new_def User_def error_event_def)
  show ?thesis
    using inst [where r = None] inst [where r = "Some 0"]
    by (simp add: url svc)
qed

end
